theory Spec2Isabelle
  imports Complex_Main
begin

section \<open>Python values used by the controller\<close>

text \<open>
  The controller is a single Python module. Exceptions are values of \<open>py_exc\<close>; the
  names are Python's. \<open>socket.timeout\<close> is kept apart from the other \<open>OSError\<close>s
  because the receiver loop catches only it.
\<close>

datatype py_exc =
    AssertionError
  | JSONDecodeError
  | AttributeError
  | KeyError
  | SocketTimeout
  | OSError
  | UnicodeEncodeError
  | RecursionError
  | UnidentifiedImageError
  | OtherError

text \<open>
  A Python float: a finite value (every finite double is a rational number), negative
  zero, the two infinities, or not-a-number. Comparison treats negative zero as zero
  and is false whenever one side is NaN.
\<close>

datatype pyfloat = Fin rat | NegZero | PInf | NInf | NaN

fun fle :: "pyfloat \<Rightarrow> pyfloat \<Rightarrow> bool" where
  "fle NaN _ = False"
| "fle _ NaN = False"
| "fle NInf _ = True"
| "fle _ PInf = True"
| "fle PInf _ = False"
| "fle _ NInf = False"
| "fle (Fin a) (Fin b) = (a \<le> b)"
| "fle (Fin a) NegZero = (a \<le> 0)"
| "fle NegZero (Fin b) = (0 \<le> b)"
| "fle NegZero NegZero = True"

abbreviation nl :: char where
  "nl \<equiv> CHR 0x0A"

subsection \<open>The format specification \<open>.2f\<close>\<close>

text \<open>
  \<open>f"{amount:.2f}"\<close> rounds the exact value to the nearest hundredth, a tie going to
  the even neighbour, and prints the integer part, a point and two digits.
\<close>

definition round_half_even :: "rat \<Rightarrow> int" where
  "round_half_even q =
     (let f = \<lfloor>q\<rfloor>; d = q - of_int f
      in if d < 1 / 2 then f
         else if 1 / 2 < d then f + 1
         else if even f then f else f + 1)"

definition digit_char :: "nat \<Rightarrow> char" where
  "digit_char d = ''0123456789'' ! (d mod 10)"

fun dec_digits :: "nat \<Rightarrow> string" where
  "dec_digits n =
     (if n < 10 then [digit_char n]
      else dec_digits (n div 10) @ [digit_char (n mod 10)])"

declare dec_digits.simps [simp del]

fun format_2f :: "pyfloat \<Rightarrow> string" where
  "format_2f (Fin r) =
     (let h = nat (round_half_even (\<bar>r\<bar> * 100))
      in (if r < 0 then ''-'' else '''') @ dec_digits (h div 100) @ ''.'' @
         [digit_char (h div 10 mod 10), digit_char (h mod 10)])"
| "format_2f NegZero = ''-0.00''"
| "format_2f PInf = ''inf''"
| "format_2f NInf = ''-inf''"
| "format_2f NaN = ''nan''"

section \<open>Command builder library\<close>

text \<open>
  \<open>AICommandBuilder\<close> holds the list \<open>_commands\<close>. Each method mutates the list and
  returns the builder; the model returns the exception raised, if any, together with
  the list as the call leaves it. The \<open>assert\<close> comes before the \<open>append\<close>, so a
  failed assertion leaves the list as it was. Assertions are taken as enabled (the
  interpreter's default).
\<close>

type_synonym builder = "string list"

definition AICommandBuilder :: builder where
  "AICommandBuilder = []"

definition left :: "pyfloat \<Rightarrow> builder \<Rightarrow> py_exc option \<times> builder" where
  "left amount b =
     (if fle (Fin 0) amount \<and> fle amount (Fin 1)
      then (None, b @ [''LEFT:'' @ format_2f amount])
      else (Some AssertionError, b))"

definition right :: "pyfloat \<Rightarrow> builder \<Rightarrow> py_exc option \<times> builder" where
  "right amount b =
     (if fle (Fin 0) amount \<and> fle amount (Fin 1)
      then (None, b @ [''RIGHT:'' @ format_2f amount])
      else (Some AssertionError, b))"

definition jump :: "pyfloat \<Rightarrow> builder \<Rightarrow> py_exc option \<times> builder" where
  "jump amount b =
     (if fle (Fin 0) amount \<and> fle amount (Fin 1)
      then (None, b @ [''JUMP:'' @ format_2f amount])
      else (Some AssertionError, b))"

definition pickup :: "builder \<Rightarrow> py_exc option \<times> builder" where
  "pickup b = (None, b @ [''PICKUP''])"

definition drop_cmd :: "builder \<Rightarrow> py_exc option \<times> builder" where
  "drop_cmd b = (None, b @ [''DROP''])"

definition shoot :: "builder \<Rightarrow> py_exc option \<times> builder" where
  "shoot b = (None, b @ [''SHOOT''])"

definition clear :: "builder \<Rightarrow> py_exc option \<times> builder" where
  "clear b = (None, [])"

fun join :: "string \<Rightarrow> string list \<Rightarrow> string" where
  "join sep [] = []"
| "join sep [x] = x"
| "join sep (x # y # ys) = x @ sep @ join sep (y # ys)"

definition build :: "builder \<Rightarrow> string" where
  "build b = join '';'' b"

text \<open>
  Chaining \<open>b.m1(..).m2(..)\<close>: the second call runs only when the first returned.
\<close>

definition chain ::
  "py_exc option \<times> builder \<Rightarrow> (builder \<Rightarrow> py_exc option \<times> builder) \<Rightarrow> py_exc option \<times> builder"
where
  "chain r m = (case r of (None, b) \<Rightarrow> m b | (Some e, b) \<Rightarrow> (Some e, b))"

section \<open>JSON values and the shared state\<close>

text \<open>
  What \<open>json.loads\<close> returns. An object is the parsed \<open>dict\<close>, as its items.
\<close>

datatype json =
    JNull
  | JBool bool
  | JInt int
  | JFloat pyfloat
  | JString string
  | JArray "json list"
  | JObject "(string \<times> json) list"

text \<open>Python's truth value of a parsed JSON value, as \<open>if\<close> and \<open>or\<close> test it.\<close>

fun truthy :: "json \<Rightarrow> bool" where
  "truthy JNull = False"
| "truthy (JBool b) = b"
| "truthy (JInt n) = (n \<noteq> 0)"
| "truthy (JFloat (Fin r)) = (r \<noteq> 0)"
| "truthy (JFloat NegZero) = False"
| "truthy (JFloat _) = True"
| "truthy (JString s) = (s \<noteq> [])"
| "truthy (JArray xs) = (xs \<noteq> [])"
| "truthy (JObject kv) = (kv \<noteq> [])"

definition dict_get :: "(string \<times> json) list \<Rightarrow> string \<Rightarrow> json \<Rightarrow> json" where
  "dict_get kv k d = (case map_of kv k of Some v \<Rightarrow> v | None \<Rightarrow> d)"

section \<open>The socket, the process and the session\<close>

type_synonym bytes = "char list"

text \<open>
  The peer is a script: what each successive \<open>recv\<close> on the connection finds.
  \<open>RxData bs\<close> are the bytes available to that call (\<open>recv\<close> returns at most the
  number asked for and leaves the rest for the next call); \<open>RxData []\<close> is the
  empty result of a closed connection; \<open>RxTimeout\<close> is \<open>socket.timeout\<close> (the
  connection has a timeout of one second); \<open>RxError\<close> is any other \<open>OSError\<close>. A
  script that has run out is a peer that stays silent: the call times out.
  \<open>tx\<close> says for each successive \<open>sendall\<close> whether it succeeds (a script that
  has run out succeeds); \<open>sent\<close> is what was transmitted on the connection.
\<close>

datatype rx_event = RxData bytes | RxTimeout | RxError

datatype image = Image bytes

datatype printed =
    PrintState json json json json json
  | PrintJSONError string
  | PrintGameEnded
  | PrintSaved
  | PrintIncompletePrefix
  | PrintClosedMidImage
  | PrintFetchFailed py_exc
  | PrintSendFailed py_exc
  | PrintConnected
  | PrintConnectionClosed
  | PrintServerShutDown

text \<open>
  \<open>shutdown\<close> and \<open>next_command\<close> are the module's globals; \<open>shared_state\<close> and
  \<open>stop_event\<close> are the locals of \<open>handle_client\<close> that its two loops share;
  \<open>rx\<close>, \<open>tx\<close>, \<open>sent\<close> are the connection \<open>conn\<close>; \<open>rnd\<close> are the values the
  successive calls of \<open>random.choice\<close> return; \<open>stdout\<close> is what was printed.
\<close>

record state =
  shutdown :: bool
  next_command :: "string option"
  shared_state :: "string \<rightharpoonup> json"
  stop_event :: bool
  rx :: "rx_event list"
  tx :: "bool list"
  sent :: "bytes list"
  rnd :: "nat list"
  stdout :: "printed list"

text \<open>
  The library functions the module calls, as parameters: \<open>json.loads\<close>,
  \<open>Image.open(io.BytesIO(data))\<close> and \<open>img.save("latest_frame.png")\<close>.
\<close>

record env =
  loads :: "string \<Rightarrow> py_exc + json"
  image_open :: "bytes \<Rightarrow> py_exc + image"
  image_save :: "image \<Rightarrow> py_exc option"

definition py_print :: "printed \<Rightarrow> state \<Rightarrow> state" where
  "py_print p st = st\<lparr>stdout := stdout st @ [p]\<rparr>"

definition recv :: "nat \<Rightarrow> state \<Rightarrow> (py_exc + bytes) \<times> state" where
  "recv n st =
     (case rx st of
        [] \<Rightarrow> (Inl SocketTimeout, st)
      | RxTimeout # es \<Rightarrow> (Inl SocketTimeout, st\<lparr>rx := es\<rparr>)
      | RxError # es \<Rightarrow> (Inl OSError, st\<lparr>rx := es\<rparr>)
      | RxData bs # es \<Rightarrow>
          (Inr (take n bs),
           st\<lparr>rx := (if length bs \<le> n then es else RxData (drop n bs) # es)\<rparr>))"

definition sendall :: "bytes \<Rightarrow> state \<Rightarrow> py_exc option \<times> state" where
  "sendall data st =
     (case tx st of
        [] \<Rightarrow> (None, st\<lparr>sent := sent st @ [data]\<rparr>)
      | ok # oks \<Rightarrow>
          if ok then (None, st\<lparr>tx := oks, sent := sent st @ [data]\<rparr>)
          else (Some OSError, st\<lparr>tx := oks\<rparr>))"

text \<open>\<open>str.encode("ascii")\<close> and \<open>bytes.decode("ascii", errors="ignore")\<close>.\<close>

definition encode_ascii :: "string \<Rightarrow> bytes option" where
  "encode_ascii s = (if list_all (\<lambda>c. (of_char c :: nat) < 128) s then Some s else None)"

definition decode_ascii_ignore :: "bytes \<Rightarrow> string" where
  "decode_ascii_ignore bs = filter (\<lambda>c. (of_char c :: nat) < 128) bs"

text \<open>\<open>int.from_bytes(length_bytes, byteorder="big")\<close>.\<close>

definition from_bytes_big :: "bytes \<Rightarrow> nat" where
  "from_bytes_big bs = foldl (\<lambda>acc b. acc * 256 + of_char b) 0 bs"

text \<open>
  \<open>str.strip()\<close>: the characters below 128 for which \<open>str.isspace\<close> holds are the
  codes 9 to 13 and 28 to 32.
\<close>

definition py_isspace :: "char \<Rightarrow> bool" where
  "py_isspace c = ((of_char c :: nat) \<in> {9, 10, 11, 12, 13, 28, 29, 30, 31, 32})"

definition strip :: "string \<Rightarrow> string" where
  "strip s = rev (dropWhile py_isspace (rev (dropWhile py_isspace s)))"

section \<open>Fetching an image\<close>

text \<open>
  The loop \<open>while len(data) < img_size\<close> of \<open>request_image\<close>. It ends with an
  exception of \<open>recv\<close>, with the early \<open>return None\<close> on an empty packet, or with
  the collected data.
\<close>

function read_payload :: "nat \<Rightarrow> bytes \<Rightarrow> state \<Rightarrow> (py_exc + bytes option) \<times> state" where
  "read_payload img_size data st =
     (if length data < img_size then
        (case recv (img_size - length data) st of
           (Inl e, st1) \<Rightarrow> (Inl e, st1)
         | (Inr packet, st1) \<Rightarrow>
             if packet = [] then (Inr None, py_print PrintClosedMidImage st1)
             else read_payload img_size (data @ packet) st1)
      else (Inr (Some data), st))"
  by pat_completeness auto
termination
  by (relation "measure (\<lambda>(img_size, data, st). img_size - length data)")
    (auto simp: neq_Nil_conv)

declare read_payload.simps [simp del]

definition request_image :: "env \<Rightarrow> state \<Rightarrow> image option \<times> state" where
  "request_image env st =
     (case sendall (''GET_IMAGE'' @ [nl]) st of
        (Some e, st1) \<Rightarrow> (None, py_print (PrintFetchFailed e) st1)
      | (None, st1) \<Rightarrow>
          (case recv 4 st1 of
             (Inl e, st2) \<Rightarrow> (None, py_print (PrintFetchFailed e) st2)
           | (Inr length_bytes, st2) \<Rightarrow>
               if length length_bytes < 4 then (None, py_print PrintIncompletePrefix st2)
               else
                 (case read_payload (from_bytes_big length_bytes) [] st2 of
                    (Inl e, st3) \<Rightarrow> (None, py_print (PrintFetchFailed e) st3)
                  | (Inr None, st3) \<Rightarrow> (None, st3)
                  | (Inr (Some data), st3) \<Rightarrow>
                      (case image_open env data of
                         Inl e \<Rightarrow> (None, py_print (PrintFetchFailed e) st3)
                       | Inr img \<Rightarrow> (Some img, st3)))))"

section \<open>Choosing a command\<close>

text \<open>\<open>random.choice(seq)\<close>: the element at the index the random source gives.\<close>

definition random_choice :: "nat list \<Rightarrow> state \<Rightarrow> nat \<times> state" where
  "random_choice seq st =
     (case rnd st of
        [] \<Rightarrow> (seq ! 0, st)
      | r # rs \<Rightarrow> (seq ! (r mod length seq), st\<lparr>rnd := rs\<rparr>))"

definition random_choose_cmd :: "state \<Rightarrow> (py_exc + string) \<times> state" where
  "random_choose_cmd st =
     (case random_choice [0, 1, 2, 3, 4, 5] st of
        (cmd_type, st1) \<Rightarrow>
          (case chain (clear AICommandBuilder)
                  (if cmd_type = 0 then left (Fin 1)
                   else if cmd_type = 1 then right (Fin 1)
                   else if cmd_type = 2 then jump (Fin 1)
                   else if cmd_type = 3 then pickup
                   else if cmd_type = 4 then drop_cmd
                   else shoot) of
             (Some e, _) \<Rightarrow> (Inl e, st1)
           | (None, b) \<Rightarrow> (Inr (build b @ [nl]), st1)))"

definition ai_image_analyzer :: "image \<Rightarrow> state \<Rightarrow> (py_exc + string) \<times> state" where
  "ai_image_analyzer img st = random_choose_cmd st"

section \<open>Handling a state line\<close>

text \<open>
  The \<open>print\<close> of \<open>handle_state\<close> reads the five keys of \<open>shared_state\<close> by
  subscript; a missing key raises \<open>KeyError\<close>.
\<close>

definition state_report :: "(string \<rightharpoonup> json) \<Rightarrow> py_exc + printed" where
  "state_report ss =
     (case (ss ''isDead'', ss ''numActivePlayers'', ss ''hasWeapon'', ss ''numWeapons'',
            ss ''gameEnded'') of
        (Some a, Some b, Some c, Some d, Some e) \<Rightarrow> Inr (PrintState a b c d e)
      | _ \<Rightarrow> Inl KeyError)"

text \<open>
  \<open>handle_state\<close>: an exception of \<open>json.loads\<close> leaves the state as it was; so does
  a parsed value that is no object, which has no \<open>get\<close> (\<open>AttributeError\<close> at the
  first assignment).
\<close>

definition handle_state :: "env \<Rightarrow> string \<Rightarrow> state \<Rightarrow> (py_exc + bool) \<times> state" where
  "handle_state env state_str st =
     (case loads env state_str of
        Inl e \<Rightarrow> (Inl e, st)
      | Inr state_json \<Rightarrow>
          (case state_json of
             JObject kv \<Rightarrow>
               (let ss = (shared_state st)
                      (''isDead'' \<mapsto> dict_get kv ''isDead'' (JBool False),
                       ''numActivePlayers'' \<mapsto> dict_get kv ''numActivePlayers'' (JInt 0),
                       ''hasWeapon'' \<mapsto> dict_get kv ''hasWeapon'' (JBool False),
                       ''numWeapons'' \<mapsto> dict_get kv ''numWeapons'' (JInt 0),
                       ''gameEnded'' \<mapsto> dict_get kv ''gameEnded'' (JBool False));
                    st1 = st\<lparr>shared_state := ss\<rparr>
                in case state_report ss of
                     Inl e \<Rightarrow> (Inl e, st1)
                   | Inr p \<Rightarrow>
                       (let st2 = py_print p st1
                        in if truthy (dict_get kv ''gameEnded'' (JBool False))
                           then (Inr True, st2)
                           else (case ss ''isDead'' of
                                   None \<Rightarrow> (Inl KeyError, st2)
                                 | Some v \<Rightarrow> (Inr (truthy v), st2))))
           | _ \<Rightarrow> (Inl AttributeError, st)))"

section \<open>The receiver loop\<close>

definition should_fetch_image :: "(string \<rightharpoonup> json) \<Rightarrow> bool" where
  "should_fetch_image s = True"

text \<open>
  The inner loop \<open>while "\n" in buffer\<close> of \<open>recv_loop\<close>, with the local \<open>buffer\<close>
  as an argument. The result is the exception that left the loop, if any, the buffer
  and the state. \<open>buffer.split("\n", 1)\<close> gives the text before the first newline and
  the text after it. An image is never \<open>None\<close> and has no length, so \<open>if img\<close> asks
  whether one was returned.
\<close>

function process_lines :: "env \<Rightarrow> string \<Rightarrow> state \<Rightarrow> py_exc option \<times> string \<times> state" where
  "process_lines env buffer st =
     (if nl \<in> set buffer then
        (let line0 = takeWhile (\<lambda>c. c \<noteq> nl) buffer;
             buffer1 = tl (dropWhile (\<lambda>c. c \<noteq> nl) buffer);
             line = strip line0
         in if line = [] then process_lines env buffer1 st
            else
              (case handle_state env line st of
                 (Inl e, st1) \<Rightarrow>
                   if e = JSONDecodeError
                   then process_lines env buffer1 (py_print (PrintJSONError line) st1)
                   else (Some e, buffer1, st1)
               | (Inr has_game_ended, st1) \<Rightarrow>
                   if has_game_ended
                   then (None, buffer1, (py_print PrintGameEnded st1)\<lparr>stop_event := True\<rparr>)
                   else if should_fetch_image (shared_state st1) then
                     (case request_image env st1 of
                        (None, st2) \<Rightarrow> process_lines env buffer1 st2
                      | (Some img, st2) \<Rightarrow>
                          (case ai_image_analyzer img st2 of
                             (Inl e, st3) \<Rightarrow> (Some e, buffer1, st3)
                           | (Inr cmd, st3) \<Rightarrow>
                               (case image_save env img of
                                  Some e \<Rightarrow> (Some e, buffer1, st3\<lparr>next_command := Some cmd\<rparr>)
                                | None \<Rightarrow>
                                    process_lines env buffer1
                                      (py_print PrintSaved (st3\<lparr>next_command := Some cmd\<rparr>)))))
                   else process_lines env buffer1 st1))
      else (None, buffer, st))"
  by pat_completeness auto
termination
proof (relation "measure (\<lambda>(env, buffer, st). length buffer)", goal_cases)
  case 1
  show ?case by simp
next
  case (2 env buffer st)
  then show ?case
    by (auto simp: less_Suc_eq_le length_dropWhile_le dest!: split_list_first
             simp: dropWhile_append3)
next
  case 3
  then show ?case
    by (auto simp: less_Suc_eq_le length_dropWhile_le dest!: split_list_first
             simp: dropWhile_append3)
next
  case 4
  then show ?case
    by (auto simp: less_Suc_eq_le length_dropWhile_le dest!: split_list_first
             simp: dropWhile_append3)
next
  case 5
  then show ?case
    by (auto simp: less_Suc_eq_le length_dropWhile_le dest!: split_list_first
             simp: dropWhile_append3)
next
  case 6
  then show ?case
    by (auto simp: less_Suc_eq_le length_dropWhile_le dest!: split_list_first
             simp: dropWhile_append3)
qed

declare process_lines.simps [simp del]

text \<open>
  One pass through the body of the outer loop of \<open>recv_loop\<close>: a timeout and an
  empty chunk both \<open>continue\<close>; any other exception of \<open>recv\<close> leaves the loop.
\<close>

definition recv_body :: "env \<Rightarrow> string \<Rightarrow> state \<Rightarrow> py_exc option \<times> string \<times> state" where
  "recv_body env buffer st =
     (case recv 4096 st of
        (Inl e, st1) \<Rightarrow>
          if e = SocketTimeout then (None, buffer, st1) else (Some e, buffer, st1)
      | (Inr chunk, st1) \<Rightarrow>
          if chunk = [] then (None, buffer, st1)
          else process_lines env (buffer @ decode_ascii_ignore chunk) st1)"

text \<open>
  The outer loop \<open>while not stop_event.is_set() and not shutdown\<close>, for at most
  \<open>fuel\<close> passes: \<open>None\<close> says that the loop is still running after them.
  \<open>recv_loop\<close> is the whole function: the buffer starts empty, and the \<open>finally\<close>
  clause sets the stop event however the loop was left.
\<close>

fun recv_while :: "env \<Rightarrow> nat \<Rightarrow> string \<Rightarrow> state \<Rightarrow> (py_exc option \<times> string \<times> state) option" where
  "recv_while env 0 buffer st = None"
| "recv_while env (Suc fuel) buffer st =
     (if \<not> stop_event st \<and> \<not> shutdown st then
        (case recv_body env buffer st of
           (Some e, buffer1, st1) \<Rightarrow> Some (Some e, buffer1, st1)
         | (None, buffer1, st1) \<Rightarrow> recv_while env fuel buffer1 st1)
      else Some (None, buffer, st))"

definition recv_loop :: "env \<Rightarrow> nat \<Rightarrow> state \<Rightarrow> (py_exc option \<times> state) option" where
  "recv_loop env fuel st =
     (case recv_while env fuel [] st of
        None \<Rightarrow> None
      | Some (r, buffer, st1) \<Rightarrow> Some (r, st1\<lparr>stop_event := True\<rparr>))"

section \<open>The sender loop\<close>

text \<open>
  One pass through the body of the loop of \<open>send_loop\<close>; the result says whether the
  pass left the loop by \<open>break\<close>. \<open>if next_command\<close> is false for \<open>None\<close> and for the
  empty string. The copy \<open>latest\<close> of the shared state is not used, and the sleep
  changes nothing.
\<close>

definition send_body :: "state \<Rightarrow> bool \<times> state" where
  "send_body st =
     (case next_command st of
        None \<Rightarrow> (False, st)
      | Some cmd \<Rightarrow>
          if cmd = [] then (False, st)
          else
            (case encode_ascii cmd of
               None \<Rightarrow>
                 (True, (py_print (PrintSendFailed UnicodeEncodeError) st)\<lparr>stop_event := True\<rparr>)
             | Some data \<Rightarrow>
                 (case sendall data st of
                    (Some e, st1) \<Rightarrow>
                      (True, (py_print (PrintSendFailed e) st1)\<lparr>stop_event := True\<rparr>)
                  | (None, st1) \<Rightarrow> (False, st1\<lparr>next_command := None\<rparr>))))"

fun send_loop :: "nat \<Rightarrow> state \<Rightarrow> state option" where
  "send_loop 0 st = None"
| "send_loop (Suc fuel) st =
     (if \<not> stop_event st \<and> \<not> shutdown st then
        (case send_body st of
           (True, st1) \<Rightarrow> Some st1
         | (False, st1) \<Rightarrow> send_loop fuel st1)
      else Some st)"

section \<open>A session and the server\<close>

text \<open>
  \<open>session_start\<close> is \<open>handle_client\<close> up to the start of its two threads: the
  connection is the accepted one, and the shared state and the stop event are new.
  The globals are as the process left them.
\<close>

definition session_start :: "rx_event list \<times> bool list \<Rightarrow> state \<Rightarrow> state" where
  "session_start conn st =
     (py_print PrintConnected st)
       \<lparr>shared_state := [''isDead'' \<mapsto> JBool False, ''numActivePlayers'' \<mapsto> JInt 0],
        stop_event := False,
        rx := fst conn, tx := snd conn, sent := []\<rparr>"

text \<open>
  The two threads run under a schedule: each turn is one pass of one thread through
  its loop (the test of the loop condition and the body), and a thread that has left
  its loop ignores its turns. The threads block in \<open>recv\<close> and in \<open>sleep\<close> between
  passes, so every run under a schedule is a run of the program; the program has
  finer interleavings as well.
\<close>

datatype thread = Receiver | Sender

fun run_threads ::
  "env \<Rightarrow> thread list \<Rightarrow> bool \<Rightarrow> string \<Rightarrow> bool \<Rightarrow> state \<Rightarrow> bool \<times> bool \<times> state"
where
  "run_threads env [] rdone buffer sdone st = (rdone, sdone, st)"
| "run_threads env (Receiver # ts) rdone buffer sdone st =
     (if rdone then run_threads env ts rdone buffer sdone st
      else if \<not> stop_event st \<and> \<not> shutdown st then
        (case recv_body env buffer st of
           (Some e, buffer1, st1) \<Rightarrow>
             run_threads env ts True buffer1 sdone (st1\<lparr>stop_event := True\<rparr>)
         | (None, buffer1, st1) \<Rightarrow> run_threads env ts False buffer1 sdone st1)
      else run_threads env ts True buffer sdone (st\<lparr>stop_event := True\<rparr>))"
| "run_threads env (Sender # ts) rdone buffer sdone st =
     (if sdone then run_threads env ts rdone buffer sdone st
      else if \<not> stop_event st \<and> \<not> shutdown st then
        (case send_body st of
           (True, st1) \<Rightarrow> run_threads env ts rdone buffer True st1
         | (False, st1) \<Rightarrow> run_threads env ts rdone buffer False st1)
      else run_threads env ts rdone buffer True st)"

text \<open>
  \<open>handle_client\<close> returns once the receiver has left its loop: it then sets the stop
  event, and the sender's next pass finds it set and leaves without a change of the
  state. \<open>None\<close> says that the receiver is still running when the schedule ends.
\<close>

definition handle_client ::
  "env \<Rightarrow> thread list \<Rightarrow> rx_event list \<times> bool list \<Rightarrow> state \<Rightarrow> state option"
where
  "handle_client env sched conn st =
     (case run_threads env sched False [] False (session_start conn st) of
        (rdone, sdone, st1) \<Rightarrow>
          if rdone then Some (py_print PrintConnectionClosed (st1\<lparr>stop_event := True\<rparr>))
          else None)"

text \<open>
  The accept loop of \<open>run_ai_server\<close>. An accepted connection comes with its peer's
  script and with the schedule of the session's threads. The loop collects what
  each closed connection had transmitted.
\<close>

datatype accept_event =
    AcceptTimeout
  | AcceptError
  | Accepted "rx_event list" "bool list" "thread list"

fun accept_loop ::
  "env \<Rightarrow> accept_event list \<Rightarrow> bytes list list \<Rightarrow> state \<Rightarrow> (bytes list list \<times> state) option"
where
  "accept_loop env [] traffic st = Some (traffic, st)"
| "accept_loop env (ev # evs) traffic st =
     (if shutdown st then Some (traffic, st)
      else
        (case ev of
           AcceptTimeout \<Rightarrow> accept_loop env evs traffic st
         | AcceptError \<Rightarrow> Some (traffic, st)
         | Accepted rxs txs sched \<Rightarrow>
             (case handle_client env sched (rxs, txs) st of
                None \<Rightarrow> None
              | Some st1 \<Rightarrow> accept_loop env evs (traffic @ [sent st1]) st1)))"

text \<open>The module as loaded: the globals of lines 58 to 60, and nothing else yet.\<close>

definition module_start :: "nat list \<Rightarrow> state" where
  "module_start rs =
     \<lparr>shutdown = False, next_command = None, shared_state = Map.empty,
      stop_event = False, rx = [], tx = [], sent = [], rnd = rs, stdout = []\<rparr>"

definition run_ai_server ::
  "env \<Rightarrow> accept_event list \<Rightarrow> state \<Rightarrow> (bytes list list \<times> state) option"
where
  "run_ai_server env evs st =
     (case accept_loop env evs [] st of
        None \<Rightarrow> None
      | Some (traffic, st1) \<Rightarrow> Some (traffic, py_print PrintServerShutDown st1))"

section \<open>An instance of the library functions\<close>

text \<open>
  For runs on concrete input. The decoder knows three state lines and the number
  \<open>5\<close>, raises \<open>RecursionError\<close> on a line of 1100 opening brackets (the parser
  recurses once for each) and \<open>JSONDecodeError\<close> on every other text. The image decoder
  knows one image, a PPM file of one pixel (the header \<open>P6\<close>, the size \<open>1 1\<close>, the
  maximum \<open>255\<close> and three bytes), and raises \<open>UnidentifiedImageError\<close> on every other
  payload. \<open>save\<close> succeeds.
\<close>

definition example_loads :: "string \<Rightarrow> py_exc + json" where
  \<open>example_loads s =
     (if length s = 1100 \<and> list_all (\<lambda>c. c = CHR ''['') s then Inl RecursionError
      else if s = ''{"numActivePlayers":2}'' then Inr (JObject [(''numActivePlayers'', JInt 2)])
      else if s = ''{"gameEnded":true}'' then Inr (JObject [(''gameEnded'', JBool True)])
      else if s = ''{"isDead":true}'' then Inr (JObject [(''isDead'', JBool True)])
      else if s = ''5'' then Inr (JInt 5)
      else Inl JSONDecodeError)\<close>

definition example_image :: bytes where
  "example_image = ''P6'' @ [nl] @ ''1 1'' @ [nl] @ ''255'' @ [nl] @ ''abc''"

definition example_env :: env where
  "example_env =
     \<lparr>loads = example_loads,
      image_open =
        (\<lambda>data. if data = example_image then Inr (Image data) else Inl UnidentifiedImageError),
      image_save = (\<lambda>img. None)\<rparr>"

section \<open>Properties of the command builder\<close>

text \<open>
  C5. On a new builder, \<open>left(1.0)\<close> followed by \<open>jump(0.5)\<close> raises nothing, and
  \<open>build() + "\n"\<close> is exactly the string \<open>LEFT:1.00;JUMP:0.50\n\<close>; its ASCII
  encoding, which is what the sender passes to \<open>sendall\<close>, is the same characters.
\<close>

theorem left_jump_serialized:
  "map_prod id (\<lambda>b. build b @ [nl])
       (chain (left (Fin 1) AICommandBuilder) (jump (Fin (1 / 2))))
     = (None, ''LEFT:1.00;JUMP:0.50'' @ [nl])
   \<and> encode_ascii (''LEFT:1.00;JUMP:0.50'' @ [nl]) = Some (''LEFT:1.00;JUMP:0.50'' @ [nl])"
  by (simp add: chain_def left_def jump_def build_def AICommandBuilder_def round_half_even_def
      dec_digits.simps digit_char_def encode_ascii_def)

text \<open>
  C6. An amount below 0 or above 1 makes \<open>left\<close>, \<open>right\<close> and \<open>jump\<close> raise
  \<open>AssertionError\<close> and leaves the builder's list as it was; so do NaN and the
  infinities. An amount from 0 to 1, both ends included, is accepted and appends the
  token.
\<close>

theorem amount_validation:
  "(r < 0 \<or> 1 < r \<longrightarrow>
      left (Fin r) b = (Some AssertionError, b) \<and>
      right (Fin r) b = (Some AssertionError, b) \<and>
      jump (Fin r) b = (Some AssertionError, b))
   \<and> (0 \<le> r \<and> r \<le> 1 \<longrightarrow>
      left (Fin r) b = (None, b @ [''LEFT:'' @ format_2f (Fin r)]) \<and>
      right (Fin r) b = (None, b @ [''RIGHT:'' @ format_2f (Fin r)]) \<and>
      jump (Fin r) b = (None, b @ [''JUMP:'' @ format_2f (Fin r)]))
   \<and> list_all (\<lambda>a. left a b = (Some AssertionError, b) \<and>
                    right a b = (Some AssertionError, b) \<and>
                    jump a b = (Some AssertionError, b)) [NaN, PInf, NInf]"
  by (auto simp: left_def right_def jump_def)

text \<open>
  The doubles written \<open>-0.1\<close> and \<open>1.1\<close> (as their exact values) are rejected, and
  the boundary values 0 and 1 are accepted.
\<close>

theorem amount_validation_witness:
  "left (Fin (- 3602879701896397 / 36028797018963968)) [''SHOOT'']
     = (Some AssertionError, [''SHOOT''])
   \<and> jump (Fin (2476979795053773 / 2251799813685248)) [''SHOOT'']
     = (Some AssertionError, [''SHOOT''])
   \<and> right (Fin 0) [''SHOOT''] = (None, [''SHOOT'', ''RIGHT:0.00''])
   \<and> left (Fin 1) [''SHOOT''] = (None, [''SHOOT'', ''LEFT:1.00''])"
  using amount_validation [of "- 3602879701896397 / 36028797018963968" "[''SHOOT'']"]
    amount_validation [of "2476979795053773 / 2251799813685248" "[''SHOOT'']"]
    amount_validation [of 0 "[''SHOOT'']"]
    amount_validation [of 1 "[''SHOOT'']"]
  by (simp add: round_half_even_def dec_digits.simps digit_char_def)

section \<open>Properties of the receiver loop\<close>

subsection \<open>One line at a time\<close>

text \<open>
  A buffer whose first newline comes after \<open>raw\<close> splits into \<open>raw\<close> and the rest, and
  the inner loop treats the stripped \<open>raw\<close> before it goes on with the rest.
\<close>

lemma split_first_line:
  assumes "nl \<notin> set raw"
  shows "takeWhile (\<lambda>c. c \<noteq> nl) (raw @ nl # rest) = raw"
    and "tl (dropWhile (\<lambda>c. c \<noteq> nl) (raw @ nl # rest)) = rest"
  using assms by (induction raw) auto

lemma strip_all_space:
  assumes "list_all py_isspace raw"
  shows "strip raw = []"
proof -
  from assms have empty: "dropWhile py_isspace raw = []"
    by (simp add: list_all_iff)
  show ?thesis
    unfolding strip_def empty by simp
qed


lemma process_lines_no_newline: "nl \<notin> set buffer \<Longrightarrow> process_lines env buffer st = (None, buffer, st)"
  by (simp add: process_lines.simps [of env buffer st])

lemma process_lines_first:
  assumes "nl \<notin> set raw"
  shows "process_lines env (raw @ nl # rest) st =
     (if strip raw = [] then process_lines env rest st
      else
        (case handle_state env (strip raw) st of
           (Inl e, st1) \<Rightarrow>
             if e = JSONDecodeError
             then process_lines env rest (py_print (PrintJSONError (strip raw)) st1)
             else (Some e, rest, st1)
         | (Inr has_game_ended, st1) \<Rightarrow>
             if has_game_ended
             then (None, rest, (py_print PrintGameEnded st1)\<lparr>stop_event := True\<rparr>)
             else
               (case request_image env st1 of
                  (None, st2) \<Rightarrow> process_lines env rest st2
                | (Some img, st2) \<Rightarrow>
                    (case ai_image_analyzer img st2 of
                       (Inl e, st3) \<Rightarrow> (Some e, rest, st3)
                     | (Inr cmd, st3) \<Rightarrow>
                         (case image_save env img of
                            Some e \<Rightarrow> (Some e, rest, st3\<lparr>next_command := Some cmd\<rparr>)
                          | None \<Rightarrow>
                              process_lines env rest
                                (py_print PrintSaved (st3\<lparr>next_command := Some cmd\<rparr>)))))))"
  by (subst process_lines.simps)
     (simp add: split_first_line [OF assms] Let_def should_fetch_image_def
           split: prod.split sum.split)

lemma handle_state_object:
  assumes "loads env line = Inr (JObject kv)"
  shows "handle_state env line st =
    (Inr (truthy (dict_get kv ''gameEnded'' (JBool False)) \<or>
          truthy (dict_get kv ''isDead'' (JBool False))),
     st\<lparr>shared_state := (shared_state st)
           (''isDead'' \<mapsto> dict_get kv ''isDead'' (JBool False),
            ''numActivePlayers'' \<mapsto> dict_get kv ''numActivePlayers'' (JInt 0),
            ''hasWeapon'' \<mapsto> dict_get kv ''hasWeapon'' (JBool False),
            ''numWeapons'' \<mapsto> dict_get kv ''numWeapons'' (JInt 0),
            ''gameEnded'' \<mapsto> dict_get kv ''gameEnded'' (JBool False)),
        stdout := stdout st @
          [PrintState (dict_get kv ''isDead'' (JBool False))
             (dict_get kv ''numActivePlayers'' (JInt 0))
             (dict_get kv ''hasWeapon'' (JBool False))
             (dict_get kv ''numWeapons'' (JInt 0))
             (dict_get kv ''gameEnded'' (JBool False))]\<rparr>)"
  using assms by (simp add: handle_state_def state_report_def Let_def py_print_def)

text \<open>
  C10. A line that is empty or has only whitespace is skipped: the inner loop goes on
  with the rest of the buffer in the very same state, so nothing is printed (no
  decode error is reported), the shared state is as it was, and nothing was sent,
  read or decided for that line.
\<close>

theorem blank_line_skipped:
  assumes "nl \<notin> set raw" and "list_all py_isspace raw"
  shows "process_lines env (raw @ nl # rest) st = process_lines env rest st"
  by (simp add: process_lines_first [OF assms(1)] strip_all_space [OF assms(2)])

theorem blank_line_skipped_witness:
  "process_lines example_env ([CHR '' '', CHR 0x09, CHR 0x0D] @ nl # ''tail'') (module_start [])
     = (None, ''tail'', module_start [])"
  using blank_line_skipped [where raw = "[CHR '' '', CHR 0x09, CHR 0x0D]" and rest = "''tail''"
      and env = example_env and st = "module_start []"]
  by (simp add: py_isspace_def process_lines_no_newline)




text \<open>
  C4. A line that decodes to an object whose \<open>isDead\<close> or \<open>gameEnded\<close> is \<open>true\<close> sets
  the stop event and leaves the inner loop with the rest of the buffer unread. The
  connection is untouched (no image request was sent, nothing was read), and the
  pending command and the random source are as before (no decision was taken). The
  outer loop then finds the stop event set and returns.
\<close>

theorem terminal_frame_stops:
  assumes "nl \<notin> set raw" and "strip raw = line" and "line \<noteq> []"
    and "loads env line = Inr (JObject kv)"
    and "map_of kv ''isDead'' = Some (JBool True) \<or> map_of kv ''gameEnded'' = Some (JBool True)"
  shows "let r = process_lines env (raw @ nl # rest) st; st1 = snd (snd r)
         in fst r = None \<and> fst (snd r) = rest
            \<and> stop_event st1
            \<and> rx st1 = rx st \<and> tx st1 = tx st \<and> sent st1 = sent st
            \<and> next_command st1 = next_command st \<and> rnd st1 = rnd st
            \<and> recv_while env (Suc fuel) rest st1 = Some (None, rest, st1)"
proof -
  from assms(5)
  have ended: "truthy (dict_get kv ''gameEnded'' (JBool False)) \<or>
               truthy (dict_get kv ''isDead'' (JBool False))"
    by (auto simp: dict_get_def)
  show ?thesis
    using assms(2,3) ended
    by (simp add: process_lines_first [OF assms(1)] handle_state_object [OF assms(4)]
          py_print_def Let_def)
qed

theorem terminal_frame_stops_witness:
  \<open>let r = process_lines example_env (''{"gameEnded":true}'' @ nl # ''tail'')
              (session_start ([], []) (module_start []))
    in fst r = None \<and> fst (snd r) = ''tail'' \<and> stop_event (snd (snd r))
       \<and> sent (snd (snd r)) = [] \<and> next_command (snd (snd r)) = None
       \<and> recv_while example_env (Suc 0) ''tail'' (snd (snd r)) = Some (None, ''tail'', snd (snd r))\<close>
  using terminal_frame_stops [where raw = \<open>''{"gameEnded":true}''\<close>
      and line = \<open>''{"gameEnded":true}''\<close> and kv = "[(''gameEnded'', JBool True)]"
      and rest = "''tail''" and env = example_env and fuel = 0
      and st = "session_start ([], []) (module_start [])"]
  by (simp add: py_isspace_def strip_def example_env_def example_loads_def module_start_def
        session_start_def py_print_def Let_def)

subsection \<open>A failed image fetch\<close>

text \<open>
  \<open>request_image\<close> works on the connection and prints; it leaves the stop event, the
  pending command, the shared state, the shutdown flag and the random source alone.
\<close>

lemma sendall_frame:
  "sendall d st = (r, st1) \<Longrightarrow>
     stop_event st1 = stop_event st \<and> next_command st1 = next_command st \<and>
     shared_state st1 = shared_state st \<and> shutdown st1 = shutdown st \<and> rnd st1 = rnd st"
  by (auto simp: sendall_def split: list.splits if_splits)

lemma recv_frame:
  "recv n st = (r, st1) \<Longrightarrow>
     stop_event st1 = stop_event st \<and> next_command st1 = next_command st \<and>
     shared_state st1 = shared_state st \<and> shutdown st1 = shutdown st \<and> rnd st1 = rnd st \<and>
     sent st1 = sent st \<and> tx st1 = tx st"
  by (auto simp: recv_def split: list.splits rx_event.splits if_splits)

lemma read_payload_frame:
  "read_payload n data st = (r, st1) \<Longrightarrow>
     stop_event st1 = stop_event st \<and> next_command st1 = next_command st \<and>
     shared_state st1 = shared_state st \<and> shutdown st1 = shutdown st \<and> rnd st1 = rnd st \<and>
     sent st1 = sent st \<and> tx st1 = tx st"
proof (induction n data st arbitrary: r st1 rule: read_payload.induct)
  case (1 img_size data st)
  show ?case
  proof (cases "length data < img_size")
    case False
    with "1.prems" show ?thesis
      by (simp add: read_payload.simps [of img_size data st])
  next
    case True
    obtain p st2 where rc: "recv (img_size - length data) st = (p, st2)"
      by (cases "recv (img_size - length data) st")
    note fr = recv_frame [OF rc]
    show ?thesis
    proof (cases p)
      case (Inl e)
      with True rc "1.prems" fr show ?thesis
        by (simp add: read_payload.simps [of img_size data st])
    next
      case (Inr packet)
      show ?thesis
      proof (cases "packet = []")
        case True
        with \<open>length data < img_size\<close> Inr rc "1.prems" fr show ?thesis
          by (auto simp: read_payload.simps [of img_size data st] py_print_def)
      next
        case False
        with \<open>length data < img_size\<close> Inr rc "1.prems"
        have "read_payload img_size (data @ packet) st2 = (r, st1)"
          by (simp add: read_payload.simps [of img_size data st])
        from "1.IH" [OF \<open>length data < img_size\<close> rc [symmetric] Inr False this] fr
        show ?thesis by simp
      qed
    qed
  qed
qed

lemma request_image_frame:
  "request_image env st = (r, st1) \<Longrightarrow>
     stop_event st1 = stop_event st \<and> next_command st1 = next_command st \<and>
     shared_state st1 = shared_state st \<and> shutdown st1 = shutdown st \<and> rnd st1 = rnd st"
  unfolding request_image_def
  by (auto simp: py_print_def
        split: prod.splits option.splits sum.splits if_splits
        dest!: sendall_frame recv_frame read_payload_frame)

text \<open>
  A payload that is cut short: the chunks that arrive hold fewer bytes than announced,
  and then the connection is closed or the read times out.
\<close>

lemma read_payload_cut_short:
  assumes "[] \<notin> set chunks" and "length data + length (concat chunks) < L"
    and "rx st = map RxData chunks @ ev # es" and "ev = RxData [] \<or> ev = RxTimeout"
  shows "fst (read_payload L data st) = (if ev = RxTimeout then Inl SocketTimeout else Inr None)"
  using assms
proof (induction chunks arbitrary: data st)
  case Nil
  then show ?case
    by (auto simp: read_payload.simps [of L data st] recv_def)
next
  case (Cons c cs)
  let ?st1 = "st\<lparr>rx := map RxData cs @ ev # es\<rparr>"
  from Cons.prems have c: "c \<noteq> []" "length c \<le> L - length data" "length data < L"
    by auto
  with Cons.prems have rc: "recv (L - length data) st = (Inr c, ?st1)"
    by (simp add: recv_def)
  from c rc have step: "read_payload L data st = read_payload L (data @ c) ?st1"
    by (simp add: read_payload.simps [of L data st])
  have "fst (read_payload L (data @ c) ?st1) =
          (if ev = RxTimeout then Inl SocketTimeout else Inr None)"
    using Cons.prems by (intro Cons.IH) auto
  with step show ?case by simp
qed

text \<open>
  C8. A fetch in which the length prefix comes with fewer than four bytes, or a read
  times out, or the payload is cut short by a closed connection or a timeout, returns
  no image (it raises nothing: every exception is caught inside). The stop event, the
  pending command and the shared state are as before, and the receiver, which asked
  for the image after a state line that did not end the game, goes on with the rest
  of its buffer.
\<close>

theorem fetch_failure_recoverable:
  assumes "(\<exists>bs es. rx st = RxData bs # es \<and> length bs < 4)
         \<or> (\<exists>es. rx st = RxTimeout # es)
         \<or> (\<exists>pre chunks ev es. rx st = RxData pre # map RxData chunks @ ev # es
               \<and> (ev = RxData [] \<or> ev = RxTimeout) \<and> length pre = 4
               \<and> [] \<notin> set chunks \<and> length (concat chunks) < from_bytes_big pre)"
    and "nl \<notin> set raw" and "strip raw = line" and "line \<noteq> []"
    and "handle_state env line st0 = (Inr False, st)"
  shows "fst (request_image env st) = None
       \<and> stop_event (snd (request_image env st)) = stop_event st
       \<and> next_command (snd (request_image env st)) = next_command st
       \<and> shared_state (snd (request_image env st)) = shared_state st
       \<and> process_lines env (raw @ nl # rest) st0 =
           process_lines env rest (snd (request_image env st))"
proof -
  have none: "fst (request_image env st) = None"
  proof (cases "sendall (''GET_IMAGE'' @ [nl]) st")
    case (Pair r st1)
    then have rx1: "rx st1 = rx st"
      by (auto simp: sendall_def split: list.splits if_splits)
    show ?thesis
    proof (cases r)
      case (Some e)
      with Pair show ?thesis by (simp add: request_image_def)
    next
      case None
      from assms(1) consider
        (short) bs es where "rx st = RxData bs # es" "length bs < 4"
        | (timeout) es where "rx st = RxTimeout # es"
        | (payload) pre chunks ev es where "rx st = RxData pre # map RxData chunks @ ev # es"
            "ev = RxData [] \<or> ev = RxTimeout" "length pre = 4" "[] \<notin> set chunks"
            "length (concat chunks) < from_bytes_big pre"
        by blast
      then show ?thesis
      proof cases
        case short
        with Pair None rx1 show ?thesis
          by (simp add: request_image_def recv_def)
      next
        case timeout
        with Pair None rx1 show ?thesis
          by (simp add: request_image_def recv_def)
      next
        case payload
        let ?st2 = "st1\<lparr>rx := map RxData chunks @ ev # es\<rparr>"
        from payload rx1 have rc: "recv 4 st1 = (Inr pre, ?st2)"
          by (simp add: recv_def)
        have "fst (read_payload (from_bytes_big pre) [] ?st2) =
                (if ev = RxTimeout then Inl SocketTimeout else Inr None)"
          using payload by (intro read_payload_cut_short) auto
        with Pair None rc payload(3) show ?thesis
          by (cases "read_payload (from_bytes_big pre) [] ?st2")
             (auto simp: request_image_def)
      qed
    qed
  qed
  obtain r st2 where ri: "request_image env st = (r, st2)"
    by (cases "request_image env st")
  from request_image_frame [OF ri] none ri assms(3-5) show ?thesis
    by (simp add: process_lines_first [OF assms(2)])
qed

theorem fetch_failure_recoverable_witness:
  \<open>fst (request_image example_env
        (snd (handle_state example_env ''{"numActivePlayers":2}''
               (session_start ([RxData [CHR 0x00, CHR 0x00, CHR 0x00, CHR 0x05], RxData ''abc'',
                                RxData []], []) (module_start []))))) = None
   \<and> stop_event (snd (request_image example_env
        (snd (handle_state example_env ''{"numActivePlayers":2}''
               (session_start ([RxData [CHR 0x00, CHR 0x00, CHR 0x00, CHR 0x05], RxData ''abc'',
                                RxData []], []) (module_start [])))))) = False
   \<and> fst (request_image example_env
        (snd (handle_state example_env ''{"numActivePlayers":2}''
               (session_start ([RxData ''ab''], []) (module_start []))))) = None\<close>
proof -
  let ?line = \<open>''{"numActivePlayers":2}''\<close>
  let ?st0 = "session_start ([RxData [CHR 0x00, CHR 0x00, CHR 0x00, CHR 0x05], RxData ''abc'',
                 RxData []], []) (module_start [])"
  let ?st0' = "session_start ([RxData ''ab''], []) (module_start [])"
  have ld: "loads example_env ?line = Inr (JObject [(''numActivePlayers'', JInt 2)])"
    by (simp add: example_env_def example_loads_def)
  have sp: "strip ?line = ?line"
    by (simp add: strip_def py_isspace_def)
  have hs: "handle_state example_env ?line ?st0 = (Inr False, snd (handle_state example_env ?line ?st0))"
    by (simp add: handle_state_object [OF ld] dict_get_def)
  have hs': "handle_state example_env ?line ?st0' = (Inr False, snd (handle_state example_env ?line ?st0'))"
    by (simp add: handle_state_object [OF ld] dict_get_def)
  have rx: "rx (snd (handle_state example_env ?line ?st0)) =
      RxData [CHR 0x00, CHR 0x00, CHR 0x00, CHR 0x05] # map RxData [''abc''] @ RxData [] # []"
    by (simp add: handle_state_object [OF ld] session_start_def)
  have rx': "rx (snd (handle_state example_env ?line ?st0')) = RxData ''ab'' # []"
    by (simp add: handle_state_object [OF ld] session_start_def)
  have c3: "\<exists>pre chunks ev es.
      rx (snd (handle_state example_env ?line ?st0)) = RxData pre # map RxData chunks @ ev # es
      \<and> (ev = RxData [] \<or> ev = RxTimeout) \<and> length pre = 4
      \<and> [] \<notin> set chunks \<and> length (concat chunks) < from_bytes_big pre"
    by (rule exI [of _ "[CHR 0x00, CHR 0x00, CHR 0x00, CHR 0x05]"], rule exI [of _ "[''abc'']"],
        rule exI [of _ "RxData []"], rule exI [of _ "[]"])
       (simp add: rx from_bytes_big_def)
  have c1: "\<exists>bs es. rx (snd (handle_state example_env ?line ?st0')) = RxData bs # es \<and> length bs < 4"
    by (rule exI [of _ "''ab''"], rule exI [of _ "[]"]) (simp add: rx')
  have st: "stop_event (snd (handle_state example_env ?line ?st0)) = False"
    by (simp add: handle_state_object [OF ld] session_start_def)
  from fetch_failure_recoverable [where raw = ?line and line = ?line and rest = "[]"
        and env = example_env and ?st0.0 = ?st0, OF disjI2 [OF disjI2 [OF c3]] _ sp _ hs]
    fetch_failure_recoverable [where raw = ?line and line = ?line and rest = "[]"
        and env = example_env and ?st0.0 = ?st0', OF disjI1 [OF c1] _ sp _ hs']
    st
  show ?thesis by simp
qed

subsection \<open>A closed connection\<close>

text \<open>
  C1. When \<open>recv\<close> returns an empty chunk, the peer has closed the connection, and
  the receiver is expected to set the stop event and leave its loop;
  \<open>request_image\<close> does read an empty packet as a closed connection. The outer loop of
  \<open>recv_loop\<close> does not: the pass over an empty chunk changes nothing but the
  script, the stop event stays unset, and after three empty reads the loop is still
  running.
\<close>

theorem closed_peer_not_detected:
  "recv_body example_env [] (session_start ([RxData []], []) (module_start []))
     = (None, [], session_start ([], []) (module_start []))
   \<and> stop_event (session_start ([], []) (module_start [])) = False
   \<and> recv_loop example_env 3
        (session_start ([RxData [], RxData [], RxData []], []) (module_start [])) = None"
  by (simp add: recv_body_def recv_def session_start_def module_start_def py_print_def
        recv_loop_def eval_nat_numeral)

section \<open>Properties of the pending command\<close>

text \<open>
  The sender, once it has left its loop, does nothing in its turns; and as long as
  nothing is pending its turns leave the state as it is.
\<close>

lemma sender_done_idle:
  "run_threads env (replicate n Sender) rd buf True st = (rd, True, st)"
  by (induction n) auto

lemma sender_nothing_pending:
  assumes "next_command st = None \<or> next_command st = Some []"
  shows "snd (snd (run_threads env (replicate n Sender) rd buf sd st)) = st"
  using assms
  by (induction n arbitrary: sd) (auto simp: send_body_def sender_done_idle)

text \<open>
  The passes of the sender over a pending command, with no write in between: the
  command is transmitted once, unless the session is already stopping, the command is
  the empty string or has a character outside ASCII, or \<open>sendall\<close> fails; in those
  cases nothing is transmitted.
\<close>

lemma sender_passes:
  assumes "next_command s = Some c"
  shows "sent (snd (snd (run_threads env (replicate (Suc n) Sender) rd buf False s)))
       = sent s @
           (if stop_event s \<or> shutdown s \<or> c = [] \<or> encode_ascii c = None
               \<or> tx s \<noteq> [] \<and> \<not> hd (tx s)
            then [] else [c])"
proof (cases "stop_event s \<or> shutdown s")
  case True
  then show ?thesis by (auto simp: sender_done_idle)
next
  case run: False
  have enc: "encode_ascii c = None \<or> encode_ascii c = Some c"
    by (simp add: encode_ascii_def)
  show ?thesis
  proof (cases "c = []")
    case True
    with run assms show ?thesis
      by (simp add: send_body_def sender_nothing_pending)
  next
    case ne: False
    show ?thesis
    proof (cases "encode_ascii c")
      case None
      with run ne assms show ?thesis
        by (simp add: send_body_def sender_done_idle py_print_def)
    next
      case (Some data)
      with enc have data: "data = c" by simp
      show ?thesis
      proof (cases "tx s")
        case Nil
        with run ne Some data assms show ?thesis
          by (simp add: send_body_def sendall_def sender_nothing_pending)
      next
        case (Cons ok oks)
        with run ne Some data assms show ?thesis
          by (cases ok)
             (simp_all add: send_body_def sendall_def sender_nothing_pending
                sender_done_idle py_print_def)
      qed
    qed
  qed
qed

text \<open>
  What a state line, a decision and a fetch that returns an image leave alone, and
  what the fetch has transmitted.
\<close>

lemma handle_state_frame:
  assumes "handle_state env l s = (r, s')"
  shows "sent s' = sent s \<and> tx s' = tx s \<and> stop_event s' = stop_event s \<and>
         shutdown s' = shutdown s \<and> next_command s' = next_command s"
proof (cases "loads env l")
  case (Inl e)
  with assms show ?thesis by (auto simp: handle_state_def)
next
  case (Inr j)
  show ?thesis
  proof (cases j)
    case (JObject kv)
    with Inr have "loads env l = Inr (JObject kv)" by simp
    from handle_state_object [OF this, of s] assms show ?thesis by auto
  qed (use Inr assms in \<open>auto simp: handle_state_def\<close>)
qed

lemma analyzer_frame:
  assumes "ai_image_analyzer img s = (r, s')"
  shows "sent s' = sent s \<and> tx s' = tx s \<and> stop_event s' = stop_event s \<and>
         shutdown s' = shutdown s"
  using assms
  by (auto simp: ai_image_analyzer_def random_choose_cmd_def random_choice_def
        split: list.splits prod.splits option.splits)

lemma request_image_sent:
  assumes "request_image env s = (Some img, s')"
  shows "sent s' = sent s @ [''GET_IMAGE'' @ [nl]]"
proof -
  obtain r1 s1 where sa: "sendall (''GET_IMAGE'' @ [nl]) s = (r1, s1)"
    by (cases "sendall (''GET_IMAGE'' @ [nl]) s")
  with assms have r1: "r1 = None"
    by (cases r1) (auto simp: request_image_def)
  with sa have s1: "sent s1 = sent s @ [''GET_IMAGE'' @ [nl]]"
    by (auto simp: sendall_def split: list.splits if_splits)
  from assms sa r1 have "sent s' = sent s1"
    by (auto simp: request_image_def py_print_def
          split: prod.splits option.splits sum.splits if_splits
          dest!: recv_frame read_payload_frame)
  with s1 show ?thesis by simp
qed

text \<open>
  C9. Two state lines in the receiver's buffer, neither ending the game, each with a
  fetch that returns an image and a decision, \<open>c1\<close> and then \<open>c2\<close>; the sender has no
  pass in between, the two lines being treated in one pass of the receiver. After the
  first line the slot \<open>next_command\<close> holds \<open>c1\<close>; after the second it holds \<open>c2\<close>, and
  being one optional value it never holds both. In any number of passes of the sender
  that follow, with no further write, the connection has carried the two image
  requests and then \<open>c2\<close>, once: \<open>c1\<close> is never transmitted. Nothing at all is
  transmitted by the sender when the session is already stopping, when \<open>c2\<close> is the
  empty string or has a character outside ASCII, or when \<open>sendall\<close> fails.
\<close>

theorem latest_command_wins:
  assumes "nl \<notin> set raw1" and "strip raw1 \<noteq> []"
    and "handle_state env (strip raw1) st = (Inr False, st1)"
    and "request_image env st1 = (Some img1, st2)"
    and "ai_image_analyzer img1 st2 = (Inr c1, st3)"
    and "image_save env img1 = None"
    and "nl \<notin> set raw2" and "strip raw2 \<noteq> []"
    and "handle_state env (strip raw2) (py_print PrintSaved (st3\<lparr>next_command := Some c1\<rparr>))
           = (Inr False, st4)"
    and "request_image env st4 = (Some img2, st5)"
    and "ai_image_analyzer img2 st5 = (Inr c2, st6)"
    and "image_save env img2 = None"
    and "nl \<notin> set rest"
  shows "next_command (snd (snd (process_lines env (raw1 @ [nl]) st))) = Some c1
       \<and> process_lines env (raw1 @ nl # raw2 @ nl # rest) st
           = (None, rest, py_print PrintSaved (st6\<lparr>next_command := Some c2\<rparr>))
       \<and> next_command (snd (snd (process_lines env (raw1 @ nl # raw2 @ nl # rest) st))) = Some c2
       \<and> sent (snd (snd (run_threads env (replicate (Suc n) Sender) rd buf False
                  (snd (snd (process_lines env (raw1 @ nl # raw2 @ nl # rest) st))))))
           = sent st @ [''GET_IMAGE'' @ [nl], ''GET_IMAGE'' @ [nl]] @
               (if stop_event st6 \<or> shutdown st6 \<or> c2 = [] \<or> encode_ascii c2 = None
                   \<or> tx st6 \<noteq> [] \<and> \<not> hd (tx st6)
                then [] else [c2])"
proof -
  let ?mid = "py_print PrintSaved (st3\<lparr>next_command := Some c1\<rparr>)"
  let ?fin = "py_print PrintSaved (st6\<lparr>next_command := Some c2\<rparr>)"
  have one: "process_lines env (raw1 @ nl # b) st = process_lines env b ?mid" for b
    using assms(2-6) by (simp add: process_lines_first [OF assms(1)])
  have two: "process_lines env (raw2 @ nl # b) ?mid = process_lines env b ?fin" for b
    using assms(8-12) by (simp add: process_lines_first [OF assms(7)])
  have first: "process_lines env (raw1 @ [nl]) st = (None, [], ?mid)"
    by (simp add: one process_lines_no_newline)
  have both: "process_lines env (raw1 @ nl # raw2 @ nl # rest) st = (None, rest, ?fin)"
    by (simp add: one two process_lines_no_newline [OF assms(13)])
  have "sent st6 = sent st5"
    using analyzer_frame [OF assms(11)] by simp
  also have "\<dots> = sent st4 @ [''GET_IMAGE'' @ [nl]]"
    by (rule request_image_sent [OF assms(10)])
  also have "sent st4 = sent st3"
    using handle_state_frame [OF assms(9)] by (simp add: py_print_def)
  also have "sent st3 = sent st2"
    using analyzer_frame [OF assms(5)] by simp
  also have "\<dots> = sent st1 @ [''GET_IMAGE'' @ [nl]]"
    by (rule request_image_sent [OF assms(4)])
  also have "sent st1 = sent st"
    using handle_state_frame [OF assms(3)] by simp
  finally have sent6: "sent st6 = sent st @ [''GET_IMAGE'' @ [nl], ''GET_IMAGE'' @ [nl]]"
    by simp
  have nc: "next_command ?fin = Some c2"
    by (simp add: py_print_def)
  from sender_passes [OF nc, of env n rd buf] sent6
  have drain: "sent (snd (snd (run_threads env (replicate (Suc n) Sender) rd buf False ?fin)))
           = sent st @ [''GET_IMAGE'' @ [nl], ''GET_IMAGE'' @ [nl]] @
               (if stop_event st6 \<or> shutdown st6 \<or> c2 = [] \<or> encode_ascii c2 = None
                   \<or> tx st6 \<noteq> [] \<and> \<not> hd (tx st6)
                then [] else [c2])"
    by (simp add: py_print_def)
  show ?thesis
    unfolding first both using drain by (simp add: py_print_def)
qed

text \<open>
  The same state line twice, each answered with the one-pixel image, the random
  source giving 0 and then 2: \<open>LEFT:1.00\<close> is decided, then \<open>JUMP:1.00\<close>, and only the
  latter is sent.
\<close>

theorem latest_command_wins_witness:
  \<open>next_command (snd (snd (process_lines example_env (''{"numActivePlayers":2}'' @ [nl])
       (session_start
          ([RxData [CHR 0x00, CHR 0x00, CHR 0x00, CHR 0x0E], RxData example_image,
            RxData [CHR 0x00, CHR 0x00, CHR 0x00, CHR 0x0E], RxData example_image], [])
          (module_start [0, 2]))))) = Some (''LEFT:1.00'' @ [nl])
   \<and> next_command (snd (snd (process_lines example_env
       (''{"numActivePlayers":2}'' @ nl # ''{"numActivePlayers":2}'' @ [nl])
       (session_start
          ([RxData [CHR 0x00, CHR 0x00, CHR 0x00, CHR 0x0E], RxData example_image,
            RxData [CHR 0x00, CHR 0x00, CHR 0x00, CHR 0x0E], RxData example_image], [])
          (module_start [0, 2]))))) = Some (''JUMP:1.00'' @ [nl])
   \<and> sent (snd (snd (run_threads example_env (replicate (Suc 1) Sender) False [] False
       (snd (snd (process_lines example_env
          (''{"numActivePlayers":2}'' @ nl # ''{"numActivePlayers":2}'' @ [nl])
          (session_start
             ([RxData [CHR 0x00, CHR 0x00, CHR 0x00, CHR 0x0E], RxData example_image,
               RxData [CHR 0x00, CHR 0x00, CHR 0x00, CHR 0x0E], RxData example_image], [])
             (module_start [0, 2]))))))))
       = [''GET_IMAGE'' @ [nl], ''GET_IMAGE'' @ [nl], ''JUMP:1.00'' @ [nl]]\<close>
proof -
  let ?l = \<open>''{"numActivePlayers":2}''\<close>
  let ?c1 = "''LEFT:1.00'' @ [nl]"
  let ?c2 = "''JUMP:1.00'' @ [nl]"
  let ?img = "Image example_image"
  define S where "S = session_start
          ([RxData [CHR 0x00, CHR 0x00, CHR 0x00, CHR 0x0E], RxData example_image,
            RxData [CHR 0x00, CHR 0x00, CHR 0x00, CHR 0x0E], RxData example_image], [])
          (module_start [0, 2])"
  define st1 where "st1 = snd (handle_state example_env (strip ?l) S)"
  define st2 where "st2 = snd (request_image example_env st1)"
  define st3 where "st3 = snd (ai_image_analyzer ?img st2)"
  define st4 where "st4 = snd (handle_state example_env (strip ?l)
                                 (py_print PrintSaved (st3\<lparr>next_command := Some ?c1\<rparr>)))"
  define st5 where "st5 = snd (request_image example_env st4)"
  define st6 where "st6 = snd (ai_image_analyzer ?img st5)"
  note defs = S_def st1_def st2_def st3_def st4_def st5_def st6_def
  have "fst (handle_state example_env (strip ?l) S) = Inr False"
    unfolding defs by code_simp
  then have h1: "handle_state example_env (strip ?l) S = (Inr False, st1)"
    unfolding st1_def by (metis prod.collapse)
  have "fst (request_image example_env st1) = Some ?img"
    unfolding defs by code_simp
  then have f1: "request_image example_env st1 = (Some ?img, st2)"
    unfolding st2_def by (metis prod.collapse)
  have "fst (ai_image_analyzer ?img st2) = Inr ?c1"
    unfolding defs by code_simp
  then have d1: "ai_image_analyzer ?img st2 = (Inr ?c1, st3)"
    unfolding st3_def by (metis prod.collapse)
  have "fst (handle_state example_env (strip ?l)
               (py_print PrintSaved (st3\<lparr>next_command := Some ?c1\<rparr>))) = Inr False"
    unfolding defs by code_simp
  then have h2: "handle_state example_env (strip ?l)
               (py_print PrintSaved (st3\<lparr>next_command := Some ?c1\<rparr>)) = (Inr False, st4)"
    unfolding st4_def by (metis prod.collapse)
  have "fst (request_image example_env st4) = Some ?img"
    unfolding defs by code_simp
  then have f2: "request_image example_env st4 = (Some ?img, st5)"
    unfolding st5_def by (metis prod.collapse)
  have "fst (ai_image_analyzer ?img st5) = Inr ?c2"
    unfolding defs by code_simp
  then have d2: "ai_image_analyzer ?img st5 = (Inr ?c2, st6)"
    unfolding st6_def by (metis prod.collapse)
  have sv: "image_save example_env ?img = None"
    by (simp add: example_env_def)
  have l: "nl \<notin> set ?l" "strip ?l \<noteq> []" "nl \<notin> set []"
    by (simp_all add: strip_def py_isspace_def)
  have run: "\<not> stop_event st6" "\<not> shutdown st6" "tx st6 = []"
    unfolding defs by code_simp+
  have s0: "sent S = []"
    by (simp add: S_def session_start_def)
  have enc: "encode_ascii ?c2 = Some ?c2"
    by (simp add: encode_ascii_def)
  note inst = latest_command_wins [OF l(1,2) h1 f1 d1 sv l(1,2) h2 f2 d2 sv l(3), of 1 False "[]"]
  let ?both = "process_lines example_env (?l @ nl # ?l @ [nl]) S"
  note a = inst [THEN conjunct1]
    and c = inst [THEN conjunct2, THEN conjunct2, THEN conjunct1]
    and d = inst [THEN conjunct2, THEN conjunct2, THEN conjunct2]
  have d': "sent (snd (snd (run_threads example_env (replicate (Suc 1) Sender) False [] False
                (snd (snd ?both)))))
              = [''GET_IMAGE'' @ [nl], ''GET_IMAGE'' @ [nl], ?c2]"
    using d run s0 enc by (simp del: run_threads.simps replicate.simps)
  show ?thesis
    unfolding S_def [symmetric] by (intro conjI) (rule a, rule c, rule d')
qed

section \<open>Properties of a session start\<close>

text \<open>
  C3, as stated: at the start of a session the shared state holds the five fields
  with their defaults. It does not: \<open>hasWeapon\<close>, \<open>numWeapons\<close> and \<open>gameEnded\<close> are
  not in the dictionary that \<open>handle_client\<close> creates.
\<close>

theorem session_start_snapshot_counterexample:
  "\<not> list_all (\<lambda>(k, d). shared_state (session_start ([], []) (module_start [])) k = Some d)
       [(''isDead'', JBool False), (''numActivePlayers'', JInt 0), (''hasWeapon'', JBool False),
        (''numWeapons'', JInt 0), (''gameEnded'', JBool False)]"
  by (simp add: session_start_def)

text \<open>
  C3, amended: at the start of a session the shared state holds exactly the two
  fields \<open>isDead\<close> and \<open>numActivePlayers\<close>, with the defaults false and 0. The first
  state line that decodes to an object sets all five fields, each to the line's
  value or else to its default.
\<close>

theorem session_start_snapshot:
  "shared_state (session_start conn st) = [''isDead'' \<mapsto> JBool False, ''numActivePlayers'' \<mapsto> JInt 0]
   \<and> dom (shared_state (session_start conn st)) = {''isDead'', ''numActivePlayers''}
   \<and> (loads env line = Inr (JObject kv) \<longrightarrow>
        list_all (\<lambda>(k, d). shared_state (snd (handle_state env line (session_start conn st))) k
                            = Some (dict_get kv k d))
          [(''isDead'', JBool False), (''numActivePlayers'', JInt 0), (''hasWeapon'', JBool False),
           (''numWeapons'', JInt 0), (''gameEnded'', JBool False)])"
  by (auto simp: session_start_def handle_state_object)

theorem session_start_snapshot_witness:
  \<open>shared_state (session_start ([], []) (module_start [])) ''hasWeapon'' = None
   \<and> shared_state (session_start ([], []) (module_start [])) ''isDead'' = Some (JBool False)
   \<and> shared_state (snd (handle_state example_env ''{"numActivePlayers":2}''
         (session_start ([], []) (module_start [])))) ''hasWeapon'' = Some (JBool False)
   \<and> shared_state (snd (handle_state example_env ''{"numActivePlayers":2}''
         (session_start ([], []) (module_start [])))) ''numActivePlayers'' = Some (JInt 2)\<close>
  using session_start_snapshot [where conn = "([], [])" and st = "module_start []"
      and env = example_env and line = \<open>''{"numActivePlayers":2}''\<close>
      and kv = "[(''numActivePlayers'', JInt 2)]"]
  by (simp add: example_env_def example_loads_def dict_get_def)

section \<open>Two sessions in a row\<close>

text \<open>
  A fetch that succeeds: the request is sent, the peer answers with the length of a
  payload of fewer than 256 bytes and then with the payload, and the payload decodes.
\<close>

lemma request_image_success:
  assumes "rx st = RxData [CHR 0x00, CHR 0x00, CHR 0x00, char_of (length payload)] # RxData payload # es"
    and "tx st = []" and "payload \<noteq> []" and "length payload < 256"
    and "image_open env payload = Inr img"
  shows "request_image env st =
           (Some img, st\<lparr>sent := sent st @ [''GET_IMAGE'' @ [nl]], rx := es\<rparr>)"
proof -
  let ?n = "length payload"
  let ?st1 = "st\<lparr>sent := sent st @ [''GET_IMAGE'' @ [nl]]\<rparr>"
  let ?st2 = "?st1\<lparr>rx := RxData payload # es\<rparr>"
  let ?st3 = "?st2\<lparr>rx := es\<rparr>"
  from assms(2) have s: "sendall (''GET_IMAGE'' @ [nl]) st = (None, ?st1)"
    by (simp add: sendall_def)
  from assms(1) have r: "recv 4 ?st1 =
      (Inr [CHR 0x00, CHR 0x00, CHR 0x00, char_of ?n], ?st2)"
    by (simp add: recv_def)
  from assms(4) have n: "from_bytes_big [CHR 0x00, CHR 0x00, CHR 0x00, char_of ?n] = ?n"
    by (simp add: from_bytes_big_def)
  from assms(3) have pos: "0 < ?n" by simp
  have r2: "recv ?n ?st2 = (Inr payload, ?st3)"
    by (simp add: recv_def)
  have full: "read_payload ?n payload s = (Inr (Some payload), s)" for s
    by (simp add: read_payload.simps [of ?n payload s])
  have p: "read_payload ?n [] ?st2 = (Inr (Some payload), ?st3)"
    using pos assms(3) r2
    by (subst read_payload.simps) (simp add: full)
  show ?thesis
    using s r n p assms(5) by (simp add: request_image_def)
qed

text \<open>
  A pass of the receiver over a chunk that is one line: over a line that ends the
  game, and over a line that does not, with a fetch that succeeds and the random
  source giving 2.
\<close>

lemma recv_line_chunk:
  assumes "rx s = RxData (l @ [nl]) # es" and "length l < 4096"
    and "list_all (\<lambda>c. (of_char c :: nat) < 128) l"
  shows "recv_body env [] s = process_lines env (l @ [nl]) (s\<lparr>rx := es\<rparr>)"
proof -
  from assms(3) have "filter (\<lambda>c. (of_char c :: nat) < 128) l = l"
    by (simp add: list_all_iff)
  with assms(1,2) show ?thesis
    by (simp add: recv_body_def recv_def decode_ascii_ignore_def)
qed

lemma receiver_turn_terminal:
  assumes "rx s = RxData (l @ [nl]) # es" and "length l < 4096"
    and "list_all (\<lambda>c. (of_char c :: nat) < 128) l"
    and "nl \<notin> set l" and "strip l = l" and "l \<noteq> []"
    and "loads env l = Inr (JObject kv)"
    and "truthy (dict_get kv ''gameEnded'' (JBool False)) \<or>
         truthy (dict_get kv ''isDead'' (JBool False))"
  shows "\<exists>s'. recv_body env [] s = (None, [], s') \<and> stop_event s' \<and> sent s' = sent s
           \<and> next_command s' = next_command s \<and> shutdown s' = shutdown s"
  using assms(5,6,8)
  by (simp add: recv_line_chunk [OF assms(1-3)] process_lines_first [OF assms(4)]
        handle_state_object [OF assms(7)] py_print_def)

lemma analyzer_jump:
  assumes "rnd s = [2]"
  shows "ai_image_analyzer img s = (Inr (''JUMP:1.00'' @ [nl]), s\<lparr>rnd := []\<rparr>)"
  using assms
  by (simp add: ai_image_analyzer_def random_choose_cmd_def random_choice_def chain_def
        clear_def jump_def build_def AICommandBuilder_def round_half_even_def
        dec_digits.simps digit_char_def)

lemma receiver_turn_decides:
  assumes "rx s = RxData (l @ [nl]) #
             RxData [CHR 0x00, CHR 0x00, CHR 0x00, char_of (length payload)] #
             RxData payload # es"
    and "length l < 4096" and "list_all (\<lambda>c. (of_char c :: nat) < 128) l"
    and "nl \<notin> set l" and "strip l = l" and "l \<noteq> []"
    and "loads env l = Inr (JObject kv)"
    and "\<not> truthy (dict_get kv ''gameEnded'' (JBool False))"
    and "\<not> truthy (dict_get kv ''isDead'' (JBool False))"
    and "tx s = []" and "rnd s = [2]"
    and "payload \<noteq> []" and "length payload < 256"
    and "image_open env payload = Inr img" and "image_save env img = None"
  shows "\<exists>s'. recv_body env [] s = (None, [], s')
           \<and> next_command s' = Some (''JUMP:1.00'' @ [nl])
           \<and> sent s' = sent s @ [''GET_IMAGE'' @ [nl]]
           \<and> rx s' = es \<and> tx s' = [] \<and> stop_event s' = stop_event s
           \<and> shutdown s' = shutdown s"
proof -
  let ?rest = "RxData [CHR 0x00, CHR 0x00, CHR 0x00, char_of (length payload)] #
                 RxData payload # es"
  obtain st1 where hs: "handle_state env l (s\<lparr>rx := ?rest\<rparr>) = (Inr False, st1)"
    and st1: "rx st1 = ?rest" "tx st1 = []" "rnd st1 = [2]" "sent st1 = sent s"
      "stop_event st1 = stop_event s" "shutdown st1 = shutdown s"
    using assms(8-11) by (simp add: handle_state_object [OF assms(7)])
  let ?st2 = "st1\<lparr>sent := sent st1 @ [''GET_IMAGE'' @ [nl]], rx := es\<rparr>"
  have ri: "request_image env st1 = (Some img, ?st2)"
    using st1(1,2) assms(12-14) by (rule request_image_success)
  have an: "ai_image_analyzer img ?st2 = (Inr (''JUMP:1.00'' @ [nl]), ?st2\<lparr>rnd := []\<rparr>)"
    using st1(3) by (intro analyzer_jump) simp
  show ?thesis
    using assms(5,6,15) hs ri an st1
    by (simp add: recv_line_chunk [OF assms(1-3)] process_lines_first [OF assms(4)]
          process_lines_no_newline py_print_def)
qed

text \<open>
  C2. A command decided in one session should never be transmitted in a later one.
  \<open>handle_client\<close> makes a new shared state and a new stop event for every
  connection, but \<open>next_command\<close> is a global that no session start resets. In the
  run below the first client answers the image request with a payload that decodes
  and saves; the first session decides \<open>JUMP:1.00\<close> and ends, on a \<open>gameEnded\<close>
  line, before its sender has had a pass. The second client sends nothing but an
  \<open>isDead\<close> line and is never asked for an image; the sender of its session
  transmits the command of the first session to it. The three state lines decode as
  \<open>json.loads\<close> decodes them.
\<close>

theorem stale_command_sent_to_next_client:
  assumes \<open>loads env ''{"numActivePlayers":2}'' = Inr (JObject [(''numActivePlayers'', JInt 2)])\<close>
    and \<open>loads env ''{"gameEnded":true}'' = Inr (JObject [(''gameEnded'', JBool True)])\<close>
    and \<open>loads env ''{"isDead":true}'' = Inr (JObject [(''isDead'', JBool True)])\<close>
    and "image_open env payload = Inr img" and "image_save env img = None"
    and "payload \<noteq> []" and "length payload < 256"
  shows \<open>map_option fst
     (run_ai_server env
        [Accepted
           [RxData (''{"numActivePlayers":2}'' @ [nl]),
            RxData [CHR 0x00, CHR 0x00, CHR 0x00, char_of (length payload)], RxData payload,
            RxData (''{"gameEnded":true}'' @ [nl])]
           [] [Receiver, Receiver, Receiver],
         Accepted [RxData (''{"isDead":true}'' @ [nl])] [] [Sender, Receiver, Receiver]]
        (module_start [2]))
   = Some [[''GET_IMAGE'' @ [nl]], [''JUMP:1.00'' @ [nl]]]\<close>
proof -
  let ?l1 = \<open>''{"numActivePlayers":2}''\<close>
  let ?l2 = \<open>''{"gameEnded":true}''\<close>
  let ?l3 = \<open>''{"isDead":true}''\<close>
  let ?rx1 = "[RxData (?l1 @ [nl]),
               RxData [CHR 0x00, CHR 0x00, CHR 0x00, char_of (length payload)], RxData payload,
               RxData (?l2 @ [nl])]"
  let ?rx2 = "[RxData (?l3 @ [nl])]"
  let ?jump = "''JUMP:1.00'' @ [nl]"
  let ?get = "''GET_IMAGE'' @ [nl]"
  define st0 where "st0 = session_start (?rx1, []) (module_start [2])"
  have st0: "rx st0 = RxData (?l1 @ [nl]) #
                 RxData [CHR 0x00, CHR 0x00, CHR 0x00, char_of (length payload)] #
                 RxData payload # [RxData (?l2 @ [nl])]"
    "tx st0 = []" "rnd st0 = [2]" "sent st0 = []" "\<not> stop_event st0" "\<not> shutdown st0"
    by (simp_all add: st0_def session_start_def module_start_def py_print_def)
  have "\<exists>s'. recv_body env [] st0 = (None, [], s')
           \<and> next_command s' = Some ?jump
           \<and> sent s' = sent st0 @ [?get]
           \<and> rx s' = [RxData (?l2 @ [nl])] \<and> tx s' = [] \<and> stop_event s' = stop_event st0
           \<and> shutdown s' = shutdown st0"
    by (rule receiver_turn_decides [OF st0(1) _ _ _ _ _ assms(1) _ _ st0(2,3) assms(6,7,4,5)])
       (simp_all add: strip_def py_isspace_def dict_get_def)
  then obtain sA where sA: "recv_body env [] st0 = (None, [], sA)"
      "next_command sA = Some ?jump" "sent sA = [?get]" "rx sA = RxData (?l2 @ [nl]) # []"
      "\<not> stop_event sA" "\<not> shutdown sA"
    using st0 by auto
  have "\<exists>s'. recv_body env [] sA = (None, [], s') \<and> stop_event s' \<and> sent s' = sent sA
           \<and> next_command s' = next_command sA \<and> shutdown s' = shutdown sA"
    by (rule receiver_turn_terminal [OF sA(4) _ _ _ _ _ assms(2)])
       (simp_all add: strip_def py_isspace_def dict_get_def)
  then obtain sB where sB: "recv_body env [] sA = (None, [], sB)" "stop_event sB"
      "sent sB = [?get]" "next_command sB = Some ?jump" "\<not> shutdown sB"
    using sA by auto
  define s1 where "s1 = py_print PrintConnectionClosed (sB\<lparr>stop_event := True\<rparr>)"
  have run1: "run_threads env [Receiver, Receiver, Receiver] False [] False st0 =
                (True, False, sB\<lparr>stop_event := True\<rparr>)"
    using st0(5,6) sA(1,5,6) sB(1,2) by simp
  have hc1: "handle_client env [Receiver, Receiver, Receiver] (?rx1, []) (module_start [2]) = Some s1"
    unfolding handle_client_def st0_def [symmetric] run1 s1_def by simp
  have s1: "sent s1 = [?get]" "next_command s1 = Some ?jump" "\<not> shutdown s1"
    using sB by (simp_all add: s1_def py_print_def)
  define t0 where "t0 = session_start (?rx2, []) s1"
  have t0: "rx t0 = RxData (?l3 @ [nl]) # []" "tx t0 = []" "sent t0 = []"
    "next_command t0 = Some ?jump" "\<not> stop_event t0" "\<not> shutdown t0"
    using s1 by (simp_all add: t0_def session_start_def py_print_def)
  define t1 where "t1 = t0\<lparr>sent := [?jump], next_command := None\<rparr>"
  have sb: "send_body t0 = (False, t1)"
    using t0 by (simp add: send_body_def encode_ascii_def sendall_def t1_def)
  have t1: "rx t1 = RxData (?l3 @ [nl]) # []" "sent t1 = [?jump]" "\<not> stop_event t1"
    "\<not> shutdown t1"
    using t0 by (simp_all add: t1_def)
  have "\<exists>s'. recv_body env [] t1 = (None, [], s') \<and> stop_event s' \<and> sent s' = sent t1
           \<and> next_command s' = next_command t1 \<and> shutdown s' = shutdown t1"
    by (rule receiver_turn_terminal [OF t1(1) _ _ _ _ _ assms(3)])
       (simp_all add: strip_def py_isspace_def dict_get_def)
  then obtain tB where tB: "recv_body env [] t1 = (None, [], tB)" "stop_event tB"
      "sent tB = [?jump]"
    using t1 by auto
  have run2: "run_threads env [Sender, Receiver, Receiver] False [] False t0 =
                (True, False, tB\<lparr>stop_event := True\<rparr>)"
    using t0(5,6) sb t1(3,4) tB(1,2) by simp
  have hc2: "handle_client env [Sender, Receiver, Receiver] (?rx2, []) s1 =
               Some (py_print PrintConnectionClosed (tB\<lparr>stop_event := True\<rparr>))"
    unfolding handle_client_def t0_def [symmetric] run2 by simp
  show ?thesis
    using hc1 hc2 s1 tB(3)
    by (simp add: run_ai_server_def module_start_def py_print_def)
qed

text \<open>The run with the one-pixel image as the payload, which has 14 bytes.\<close>

theorem stale_command_sent_to_next_client_witness:
  \<open>map_option fst
     (run_ai_server example_env
        [Accepted
           [RxData (''{"numActivePlayers":2}'' @ [nl]),
            RxData [CHR 0x00, CHR 0x00, CHR 0x00, CHR 0x0E], RxData example_image,
            RxData (''{"gameEnded":true}'' @ [nl])]
           [] [Receiver, Receiver, Receiver],
         Accepted [RxData (''{"isDead":true}'' @ [nl])] [] [Sender, Receiver, Receiver]]
        (module_start [2]))
   = Some [[''GET_IMAGE'' @ [nl]], [''JUMP:1.00'' @ [nl]]]\<close>
proof -
  have len: "char_of (length example_image) = CHR 0x0E"
    by code_simp
  from stale_command_sent_to_next_client [where env = example_env and payload = example_image
      and img = "Image example_image"]
  show ?thesis
    by (simp add: example_env_def example_loads_def len) (simp add: example_image_def)
qed

end
